theory Spec2Isabelle
  imports Main
begin

section \<open>Python strings\<close>

text \<open>
  A Python \<open>str\<close> is modelled as a \<open>string\<close>: a list of characters, each character a
  code point below 256. \<open>len\<close> is \<open>length\<close>, \<open>s[:n]\<close> is \<open>take n s\<close> and \<open>+\<close> is \<open>@\<close>.
  The whitespace of \<open>str.strip()\<close> and \<open>str.split()\<close> is the set of code points for which
  \<open>str.isspace()\<close> holds; below 256 these are 9 to 13, 28 to 32, 133 and 160.
\<close>

definition isspace :: "char \<Rightarrow> bool" where
  "isspace c =
     (let n = (of_char c :: nat)
      in (9 \<le> n \<and> n \<le> 13) \<or> (28 \<le> n \<and> n \<le> 32) \<or> n = 133 \<or> n = 160)"

text \<open>\<open>s.strip()\<close>: leading and trailing whitespace removed.\<close>

definition strip :: "string \<Rightarrow> string" where
  "strip s = rev (dropWhile isspace (rev (dropWhile isspace s)))"

text \<open>
  \<open>s.lower()\<close>: below 256 the upper-case letters are A to Z and the Latin-1 letters
  192 to 222 without the multiplication sign 215; each is 32 below its lower-case form.
\<close>

definition lower_char :: "char \<Rightarrow> char" where
  "lower_char c =
     (let n = (of_char c :: nat)
      in if (65 \<le> n \<and> n \<le> 90) \<or> (192 \<le> n \<and> n \<le> 222 \<and> n \<noteq> 215)
         then char_of (n + 32) else c)"

definition lower :: "string \<Rightarrow> string" where
  "lower s = map lower_char s"

text \<open>\<open>s.startswith(p)\<close>.\<close>

fun startswith :: "string \<Rightarrow> string \<Rightarrow> bool" where
  "startswith s [] = True"
| "startswith [] (p # ps) = False"
| "startswith (c # cs) (p # ps) = (c = p \<and> startswith cs ps)"

text \<open>\<open>k in s\<close> on strings: \<open>k\<close> occurs in \<open>s\<close> as a contiguous substring.\<close>

fun str_in :: "string \<Rightarrow> string \<Rightarrow> bool" where
  "str_in k [] = (k = [])"
| "str_in k (c # cs) = (startswith (c # cs) k \<or> str_in k cs)"

text \<open>
  \<open>s.split()\<close> with no argument: the maximal runs of non-whitespace characters, in order.
  The first argument is the word read so far.
\<close>

fun split_from :: "string \<Rightarrow> string \<Rightarrow> string list" where
  "split_from w [] = (if w = [] then [] else [w])"
| "split_from w (c # cs) =
     (if isspace c then (if w = [] then split_from [] cs else w # split_from [] cs)
      else split_from (w @ [c]) cs)"

definition split_ws :: "string \<Rightarrow> string list" where
  "split_ws s = split_from [] s"

text \<open>\<open>sep.join(ws)\<close>.\<close>

fun join :: "string \<Rightarrow> string list \<Rightarrow> string" where
  "join sep [] = []"
| "join sep [w] = w"
| "join sep (w # v # ws) = w @ sep @ join sep (v # ws)"

section \<open>The parsed document\<close>

text \<open>
  The HTML parser and its CSS selection are a library outside the program, so a node is
  modelled by what the program reads of it. An element has a text content and
  attributes. A product item answers \<open>select_one\<close> with the first element that matches a
  selector, if there is one, and \<open>select\<close> with all matching elements in document order.
  A call of the library may raise; \<open>Exn\<close> stands for any Python \<open>Exception\<close> with its
  message. Log messages are not modelled.
\<close>

datatype exn = Exn string

record element =
  elem_text :: string
  elem_attrs :: "(string \<times> string) list"

record entry =
  select_one :: "string \<Rightarrow> exn + element option"
  select :: "string \<Rightarrow> exn + element list"

record product =
  name :: string
  display_name :: string
  price :: string
  availability :: string
  url :: string

section \<open>Constants\<close>

definition MAX_PRODUCTS :: nat where
  "MAX_PRODUCTS = 10"

definition MAX_NAME_LENGTH :: nat where
  "MAX_NAME_LENGTH = 70"

definition name_selectors :: "string list" where
  "name_selectors =
     [''.a-size-medium.a-color-base.a-text-normal'',
      ''.a-link-normal .a-text-normal'',
      ''h2 a span'',
      ''.a-size-base-plus.a-color-base.a-text-normal'',
      ''h2 .a-link-normal'']"

definition url_selectors :: "string list" where
  "url_selectors =
     [''h2 a.a-link-normal'',
      ''.a-link-normal.s-underline-text'',
      ''.a-link-normal.s-no-outline'']"

definition availability_selectors :: "string list" where
  "availability_selectors =
     [''.a-color-success'',
      ''.a-color-price'',
      ''.a-color-base.a-text-bold'',
      ''.a-box-inner .a-section span'',
      ''.a-spacing-small span.a-text-bold'',
      ''#availability span'',
      ''.a-section.a-spacing-none.a-spacing-top-micro .a-row'']"

definition availability_keywords :: "string list" where
  "availability_keywords =
     [''stock'', ''deliver'', ''ship'', ''arrive'', ''available'', ''sold'', ''unavailable'']"

definition no_availability :: string where
  "no_availability = ''No availability info''"

section \<open>Extraction of one product item\<close>

text \<open>
  The name loop of \<open>extract_product_data\<close>: the selectors are tried in order, and the
  first one for which \<open>select_one\<close> returns an element gives the name and ends the loop.
  The loop is not inside a \<open>try\<close> of its own, so an exception leaves it.
\<close>

fun extract_name :: "entry \<Rightarrow> string list \<Rightarrow> exn + string" where
  "extract_name item [] = Inr ''N/A''"
| "extract_name item (selector # rest) =
     (case select_one item selector of
        Inl e \<Rightarrow> Inl e
      | Inr None \<Rightarrow> extract_name item rest
      | Inr (Some name_elem) \<Rightarrow> Inr (strip (elem_text name_elem)))"

text \<open>The conversion of the \<open>href\<close> value inside the URL loop.\<close>

definition absolute_url :: "string \<Rightarrow> string" where
  "absolute_url relative_url =
     (if startswith relative_url ''/'' then ''https://www.amazon.com'' @ relative_url
      else relative_url)"

text \<open>
  The URL loop: a selector counts only if its element has an \<open>href\<close> attribute. The
  result is \<open>None\<close> when the loop ends without a \<open>break\<close>.
\<close>

fun find_url :: "entry \<Rightarrow> string list \<Rightarrow> exn + string option" where
  "find_url item [] = Inr None"
| "find_url item (selector # rest) =
     (case select_one item selector of
        Inl e \<Rightarrow> Inl e
      | Inr None \<Rightarrow> find_url item rest
      | Inr (Some url_elem) \<Rightarrow>
          (case map_of (elem_attrs url_elem) ''href'' of
             None \<Rightarrow> find_url item rest
           | Some relative_url \<Rightarrow>
               Inr (Some (absolute_url relative_url))))"

text \<open>\<open>if not url: url = "No URL available"\<close>: \<open>None\<close> and the empty string are falsy.\<close>

definition url_or_default :: "string option \<Rightarrow> string" where
  "url_or_default u =
     (case u of
        None \<Rightarrow> ''No URL available''
      | Some s \<Rightarrow> if s = [] then ''No URL available'' else s)"

definition extract_url :: "entry \<Rightarrow> string list \<Rightarrow> exn + string" where
  "extract_url item selectors =
     (case find_url item selectors of
        Inl e \<Rightarrow> Inl e
      | Inr u \<Rightarrow> Inr (url_or_default u))"

definition extract_price :: "entry \<Rightarrow> exn + string" where
  "extract_price item =
     (case select_one item ''.a-price .a-offscreen'' of
        Inl e \<Rightarrow> Inl e
      | Inr None \<Rightarrow> Inr ''N/A''
      | Inr (Some price_elem) \<Rightarrow> Inr (strip (elem_text price_elem)))"

text \<open>
  The test on one candidate text:
  \<open>any(keyword in text.lower() for keyword in keywords) and len(text) > 3\<close>.
\<close>

definition accepted :: "string \<Rightarrow> bool" where
  "accepted t = (list_ex (\<lambda>keyword. str_in keyword (lower t)) availability_keywords \<and> length t > 3)"

text \<open>
  The inner availability loop over the elements of one selector. The second argument is
  the variable \<open>availability\<close>, assigned at the first accepted text, which ends the loop.
\<close>

fun scan_elems :: "element list \<Rightarrow> string \<Rightarrow> string" where
  "scan_elems [] a = a"
| "scan_elems (avail_elem # rest) a =
     (let t = strip (elem_text avail_elem)
      in if accepted t then t else scan_elems rest a)"

text \<open>
  The outer availability loop. Its body is inside \<open>try ... except Exception\<close>, so a
  selector whose \<open>select\<close> raises is passed over. The loop ends as soon as
  \<open>availability\<close> differs from its initial value.
\<close>

fun scan_selectors :: "entry \<Rightarrow> string list \<Rightarrow> string \<Rightarrow> string" where
  "scan_selectors item [] a = a"
| "scan_selectors item (selector # rest) a =
     (case select item selector of
        Inl e \<Rightarrow> scan_selectors item rest a
      | Inr avail_elems \<Rightarrow>
          (let a' = scan_elems avail_elems a
           in if a' \<noteq> no_availability then a' else scan_selectors item rest a'))"

definition find_availability :: "entry \<Rightarrow> string list \<Rightarrow> string" where
  "find_availability item selectors = scan_selectors item selectors no_availability"

text \<open>The clean-up of the availability text.\<close>

definition clean_availability :: "string \<Rightarrow> string" where
  "clean_availability a =
     (if a \<noteq> no_availability
      then (let b = join '' '' (split_ws a)
            in if length b > 30 then take 30 b @ ''...'' else b)
      else a)"

definition truncate_name :: "string \<Rightarrow> string" where
  "truncate_name n =
     (if length n > MAX_NAME_LENGTH then take MAX_NAME_LENGTH n @ ''...'' else n)"

text \<open>The body of the \<open>try\<close> for one product item, in the order of the source.\<close>

definition process_item :: "entry \<Rightarrow> exn + product" where
  "process_item item =
     (case extract_name item name_selectors of
        Inl e \<Rightarrow> Inl e
      | Inr n \<Rightarrow>
     (case extract_url item url_selectors of
        Inl e \<Rightarrow> Inl e
      | Inr u \<Rightarrow>
     (case extract_price item of
        Inl e \<Rightarrow> Inl e
      | Inr p \<Rightarrow>
          Inr \<lparr>name = n,
               display_name = truncate_name n,
               price = p,
               availability =
                 clean_availability (find_availability item availability_selectors),
               url = u\<rparr>)))"

section \<open>The result list\<close>

text \<open>
  The loop over the product items: \<open>products\<close> is the list built so far. An item whose
  processing raises is passed over by \<open>except Exception: continue\<close>.
\<close>

fun collect :: "entry list \<Rightarrow> product list \<Rightarrow> product list" where
  "collect [] products = products"
| "collect (item # rest) products =
     (case process_item item of
        Inl e \<Rightarrow> collect rest products
      | Inr p \<Rightarrow> collect rest (products @ [p]))"

text \<open>
  \<open>extract_product_data\<close>. The first argument stands for the parser followed by the
  selection of the product items,
  \<open>BeautifulSoup(html_content, "html.parser").select("div.s-result-item[...]")\<close>,
  which is outside every \<open>try\<close>.
\<close>

definition extract_product_data ::
  "(string \<Rightarrow> exn + entry list) \<Rightarrow> string \<Rightarrow> exn + product list" where
  "extract_product_data soup_select html_content =
     (if html_content = [] then Inr []
      else (case soup_select html_content of
              Inl e \<Rightarrow> Inl e
            | Inr product_items \<Rightarrow> Inr (collect (take MAX_PRODUCTS product_items) [])))"

section \<open>Notions of the specification\<close>

text \<open>
  Collapsing whitespace, in the words of the specification: every maximal run of
  whitespace characters becomes one space, every other character stays.
\<close>

fun collapse_runs :: "string \<Rightarrow> string" where
  "collapse_runs [] = []"
| "collapse_runs [c] = [if isspace c then CHR '' '' else c]"
| "collapse_runs (c # d # cs) =
     (if isspace c
      then (if isspace d then collapse_runs (d # cs) else CHR '' '' # collapse_runs (d # cs))
      else c # collapse_runs (d # cs))"

text \<open>
  The candidate texts of one availability rule: the trimmed texts of all elements its
  selector matches, in document order; none if the selection raises.
\<close>

definition candidates :: "entry \<Rightarrow> string \<Rightarrow> string list" where
  "candidates item selector =
     (case select item selector of
        Inl e \<Rightarrow> []
      | Inr avail_elems \<Rightarrow> map (\<lambda>avail_elem. strip (elem_text avail_elem)) avail_elems)"

text \<open>The first accepted candidate over all rules in order, or the sentinel.\<close>

definition first_accepted :: "entry \<Rightarrow> string list \<Rightarrow> string" where
  "first_accepted item selectors =
     (case List.find accepted (concat (map (candidates item) selectors)) of
        None \<Rightarrow> no_availability
      | Some t \<Rightarrow> t)"

text \<open>A URL rule is passed over: no element, or an element without \<open>href\<close>.\<close>

definition url_rule_fails :: "entry \<Rightarrow> string \<Rightarrow> bool" where
  "url_rule_fails item selector =
     (case select_one item selector of
        Inl e \<Rightarrow> False
      | Inr None \<Rightarrow> True
      | Inr (Some url_elem) \<Rightarrow> map_of (elem_attrs url_elem) ''href'' = None)"

text \<open>The record of an item, if its processing does not raise.\<close>

definition record_of :: "entry \<Rightarrow> product option" where
  "record_of item = (case process_item item of Inl e \<Rightarrow> None | Inr p \<Rightarrow> Some p)"

section \<open>Sample documents\<close>

text \<open>
  An item given by a table from selectors to the elements they match: \<open>select\<close> returns
  the elements of the table, \<open>select_one\<close> the first of them.
\<close>

definition item_of :: "(string \<times> element list) list \<Rightarrow> entry" where
  "item_of tbl =
     \<lparr>select_one = (\<lambda>s. Inr (case map_of tbl s of
                                 None \<Rightarrow> None
                               | Some [] \<Rightarrow> None
                               | Some (el # _) \<Rightarrow> Some el)),
      select = (\<lambda>s. Inr (case map_of tbl s of None \<Rightarrow> [] | Some els \<Rightarrow> els))\<rparr>"

text \<open>The same item, except that the library raises on one selector.\<close>

definition raising_on :: "string \<Rightarrow> exn \<Rightarrow> entry \<Rightarrow> entry" where
  "raising_on selector x item =
     \<lparr>select_one = (\<lambda>s. if s = selector then Inl x else select_one item s),
      select = (\<lambda>s. if s = selector then Inl x else select item s)\<rparr>"

definition node :: "string \<Rightarrow> element" where
  "node t = \<lparr>elem_text = t, elem_attrs = []\<rparr>"

definition link :: "string \<Rightarrow> string \<Rightarrow> element" where
  "link t h = \<lparr>elem_text = t, elem_attrs = [(''class'', ''a-link-normal''), (''href'', h)]\<rparr>"

definition kettle :: entry where
  "kettle = item_of
     [(''h2 a span'', [node ''  Kettle 1.7 L  '']),
      (''h2 a.a-link-normal'', [link ''Kettle'' ''/dp/B01'']),
      (''.a-price .a-offscreen'', [node ''$19.99'']),
      (''.a-color-price'',
         [node ''$19.99'', node ''Only 3 left in   stock - order soon, ships tomorrow''])]"

definition kettle_record :: product where
  "kettle_record =
     \<lparr>name = ''Kettle 1.7 L'',
      display_name = ''Kettle 1.7 L'',
      price = ''$19.99'',
      availability = ''Only 3 left in stock - order s...'',
      url = ''https://www.amazon.com/dp/B01''\<rparr>"

definition toaster :: entry where
  "toaster = item_of
     [(''h2 .a-link-normal'', [node '' Toaster '']),
      (''.a-link-normal.s-no-outline'', [link ''Toaster'' ''https://www.amazon.com/dp/B03'']),
      (''.a-color-success'', [node ''New'', node '' In Stock ''])]"

definition toaster_record :: product where
  "toaster_record =
     \<lparr>name = ''Toaster'',
      display_name = ''Toaster'',
      price = ''N/A'',
      availability = ''In Stock'',
      url = ''https://www.amazon.com/dp/B03''\<rparr>"

text \<open>The first URL selector matches an anchor without \<open>href\<close>.\<close>

definition blender :: entry where
  "blender = item_of
     [(''h2 a span'', [node ''Blender'']),
      (''h2 a.a-link-normal'', [node ''Blender'']),
      (''.a-link-normal.s-underline-text'', [link ''Blender'' ''/dp/B02''])]"

text \<open>The first URL selector matches an anchor whose \<open>href\<close> is empty.\<close>

definition mixer :: entry where
  "mixer = item_of
     [(''h2 a span'', [node ''Mixer'']),
      (''h2 a.a-link-normal'', [link ''Mixer'' []]),
      (''.a-link-normal.s-underline-text'', [link ''Mixer'' ''/dp/B04''])]"

text \<open>The second name selector matches an element with blank text.\<close>

definition blank :: entry where
  "blank = item_of
     [(''.a-link-normal .a-text-normal'', [node [CHR '' '', CHR 0x0A, CHR '' '']]),
      (''h2 a span'', [node ''Grinder''])]"

text \<open>A name of 80 characters.\<close>

definition long_name :: string where
  "long_name =
     ''Stainless Steel Electric Kettle With Auto Shut Off And Boil Dry Protection 1.7 L''"

definition lamp :: entry where
  "lamp = item_of [(''h2 a span'', [node long_name])]"

definition lamp_record :: product where
  "lamp_record =
     \<lparr>name = long_name,
      display_name =
        ''Stainless Steel Electric Kettle With Auto Shut Off And Boil Dry Protec...'',
      price = ''N/A'',
      availability = ''No availability info'',
      url = ''No URL available''\<rparr>"

text \<open>A kettle for which the library raises on one name selector.\<close>

definition broken :: entry where
  "broken = raising_on ''.a-link-normal .a-text-normal'' (Exn ''boom'') kettle"

text \<open>
  A parser with a selection of the product items: it raises on the marked section
  \<open><![foo]>\<close>, which \<open>html.parser\<close> rejects, and finds no product item in any other
  document.
\<close>

definition strict_parser :: "string \<Rightarrow> exn + entry list" where
  "strict_parser html =
     (if html = ''<![foo]>'' then Inl (Exn ''ParserRejectedMarkup'') else Inr [])"

text \<open>A page of 25 items.\<close>

definition page25 :: "entry list" where
  "page25 =
     [kettle, toaster, lamp, kettle, toaster, lamp, kettle, toaster, lamp, kettle,
      toaster, lamp, kettle, toaster, lamp, kettle, toaster, lamp, kettle, toaster,
      lamp, kettle, toaster, lamp, kettle]"

section \<open>Evaluation of the sample documents\<close>

lemmas sample_defs =
  kettle_def toaster_def lamp_def blender_def mixer_def blank_def broken_def long_name_def
  item_of_def raising_on_def node_def link_def
  kettle_record_def toaster_record_def lamp_record_def

lemmas string_defs =
  strip_def isspace_def lower_def lower_char_def split_ws_def char_of_eq_iff

lemmas field_defs =
  name_selectors_def url_selectors_def availability_selectors_def absolute_url_def
  extract_url_def url_or_default_def extract_price_def find_availability_def
  clean_availability_def truncate_name_def MAX_NAME_LENGTH_def accepted_def
  no_availability_def availability_keywords_def

lemma kettle_processed: "process_item kettle = Inr kettle_record"
  by (simp add: process_item_def sample_defs string_defs field_defs)

lemma toaster_processed: "process_item toaster = Inr toaster_record"
  by (simp add: process_item_def sample_defs string_defs field_defs)

lemma lamp_processed: "process_item lamp = Inr lamp_record"
  by (simp add: process_item_def sample_defs string_defs field_defs)

lemma broken_raises: "process_item broken = Inl (Exn ''boom'')"
  by (simp add: process_item_def sample_defs string_defs field_defs)

section \<open>The loops\<close>

lemma extract_name_no_match:
  "\<forall>s\<in>set pre. select_one item s = Inr None \<Longrightarrow>
   extract_name item (pre @ rest) = extract_name item rest"
  by (induction pre) simp_all

lemma extract_name_first_match:
  "\<forall>s\<in>set pre. select_one item s = Inr None \<Longrightarrow> select_one item sel = Inr (Some el) \<Longrightarrow>
   extract_name item (pre @ sel # post) = Inr (strip (elem_text el))"
  by (simp add: extract_name_no_match)

lemma find_url_fails:
  "\<forall>s\<in>set pre. url_rule_fails item s \<Longrightarrow> find_url item (pre @ rest) = find_url item rest"
  by (induction pre) (auto simp: url_rule_fails_def split: sum.splits option.splits)

lemma find_url_first_match:
  "\<forall>s\<in>set pre. url_rule_fails item s \<Longrightarrow> select_one item sel = Inr (Some el) \<Longrightarrow>
   map_of (elem_attrs el) ''href'' = Some h \<Longrightarrow>
   find_url item (pre @ sel # post) = Inr (Some (absolute_url h))"
  by (simp add: find_url_fails)

lemma find_url_raises:
  "\<forall>s\<in>set pre. url_rule_fails item s \<Longrightarrow> select_one item sel = Inl x \<Longrightarrow>
   find_url item (pre @ sel # post) = Inl x"
  by (simp add: find_url_fails)

lemma find_url_all_fail:
  "\<forall>s\<in>set selectors. url_rule_fails item s \<Longrightarrow> find_url item selectors = Inr None"
  using find_url_fails [of selectors item "[]"] by simp

lemma collect_map_filter: "collect items products = products @ List.map_filter record_of items"
  by (induction items arbitrary: products)
     (simp_all add: record_of_def split: sum.splits)

lemma length_map_filter_le: "length (List.map_filter f xs) \<le> length xs"
  by (induction xs) (simp_all split: option.splits)

lemma map_filter_all_Some:
  "\<forall>x\<in>set xs. f x \<noteq> None \<Longrightarrow> List.map_filter f xs = map (\<lambda>x. the (f x)) xs"
  by (induction xs) auto

lemma map_filter_append:
  "List.map_filter f (xs @ ys) = List.map_filter f xs @ List.map_filter f ys"
  by (simp add: List.map_filter_def)

section \<open>Whitespace\<close>

lemma collapse_runs_nonspace: "\<not> isspace c \<Longrightarrow> collapse_runs (c # cs) = c # collapse_runs cs"
  by (cases cs) simp_all

lemma collapse_runs_space:
  "isspace c \<Longrightarrow> \<exists>x\<in>set cs. \<not> isspace x \<Longrightarrow>
   collapse_runs (c # cs) = CHR '' '' # collapse_runs (dropWhile isspace cs)"
proof (induction cs arbitrary: c)
  case Nil
  then show ?case by simp
next
  case (Cons d ds)
  show ?case
  proof (cases "isspace d")
    case True
    with Cons.prems have "\<exists>x\<in>set ds. \<not> isspace x" by auto
    with True Cons.IH [of d] Cons.prems(1) show ?thesis by simp
  next
    case False
    with Cons.prems(1) show ?thesis by simp
  qed
qed

lemma split_from_empty_iff: "split_from w s = [] \<longleftrightarrow> w = [] \<and> (\<forall>x\<in>set s. isspace x)"
  by (induction s arbitrary: w) auto

lemma join_Cons: "join sep (w # ws) = (if ws = [] then w else w @ sep @ join sep ws)"
  by (cases ws) simp_all

lemma join_split_from:
  "s = [] \<or> \<not> isspace (last s) \<Longrightarrow>
   join '' '' (split_from w s) =
     (if w = [] then collapse_runs (dropWhile isspace s) else w @ collapse_runs s)"
proof (induction s arbitrary: w)
  case Nil
  then show ?case by simp
next
  case (Cons c cs)
  from Cons.prems have tl: "cs = [] \<or> \<not> isspace (last cs)"
    by (auto split: if_splits)
  show ?case
  proof (cases "isspace c")
    case True
    with Cons.prems have ne: "cs \<noteq> []" by auto
    with tl have nsp: "\<exists>x\<in>set cs. \<not> isspace x"
      using last_in_set by blast
    show ?thesis
    proof (cases "w = []")
      case True
      with \<open>isspace c\<close> Cons.IH [OF tl, of "[]"] show ?thesis by simp
    next
      case False
      from nsp have "split_from [] cs \<noteq> []"
        by (simp add: split_from_empty_iff)
      with False \<open>isspace c\<close> Cons.IH [OF tl, of "[]"] collapse_runs_space [OF \<open>isspace c\<close> nsp]
      show ?thesis by (simp add: join_Cons)
    qed
  next
    case False
    with Cons.IH [OF tl, of "w @ [c]"] show ?thesis
      by (simp add: collapse_runs_nonspace)
  qed
qed

lemma last_dropWhile: "dropWhile P xs \<noteq> [] \<Longrightarrow> last (dropWhile P xs) = last xs"
  by (induction xs) (auto split: if_splits)

lemma strip_ends:
  "strip t = [] \<or> (\<not> isspace (hd (strip t)) \<and> \<not> isspace (last (strip t)))"
proof (cases "strip t = []")
  case True
  then show ?thesis by simp
next
  case False
  define u where "u = dropWhile isspace t"
  define v where "v = dropWhile isspace (rev u)"
  have st: "strip t = rev v" by (simp add: strip_def u_def v_def)
  with False have vne: "v \<noteq> []" by simp
  then have une: "u \<noteq> []" by (auto simp: v_def)
  from vne have "\<not> isspace (hd v)" unfolding v_def by (rule hd_dropWhile)
  with vne have l: "\<not> isspace (last (strip t))" by (simp add: st last_rev)
  from vne have "last v = last (rev u)" unfolding v_def by (rule last_dropWhile)
  with une have "last v = hd u" by (simp add: last_rev)
  moreover from une have "\<not> isspace (hd u)" unfolding u_def by (rule hd_dropWhile)
  ultimately have "\<not> isspace (hd (strip t))" using vne by (simp add: st hd_rev)
  with l show ?thesis by simp
qed

lemma dropWhile_hd_id: "xs = [] \<or> \<not> P (hd xs) \<Longrightarrow> dropWhile P xs = xs"
  by (cases xs) auto

lemma join_split_strip: "join '' '' (split_ws (strip t)) = collapse_runs (strip t)"
proof -
  from strip_ends [of t] have a: "strip t = [] \<or> \<not> isspace (last (strip t))"
    and b: "strip t = [] \<or> \<not> isspace (hd (strip t))" by auto
  from join_split_from [OF a, of "[]"] dropWhile_hd_id [of "strip t" isspace, OF b] show ?thesis
    by (simp add: split_ws_def)
qed


section \<open>The availability loops\<close>

lemma sentinel_not_accepted: "\<not> accepted no_availability"
  by (simp add: accepted_def no_availability_def availability_keywords_def string_defs)

lemma find_append:
  "List.find P (xs @ ys) = (case List.find P xs of None \<Rightarrow> List.find P ys | Some x \<Rightarrow> Some x)"
  by (induction xs) simp_all

lemma scan_elems_find:
  "scan_elems els a =
     (case List.find accepted (map (\<lambda>el. strip (elem_text el)) els) of
        None \<Rightarrow> a
      | Some t \<Rightarrow> t)"
  by (induction els) (simp_all add: Let_def)

lemma find_accepted_not_sentinel: "List.find accepted ts = Some t \<Longrightarrow> t \<noteq> no_availability"
  using sentinel_not_accepted by (induction ts) (auto split: if_splits)

lemma scan_selectors_first_accepted:
  "scan_selectors item selectors no_availability = first_accepted item selectors"
proof (induction selectors)
  case Nil
  show ?case by (simp add: first_accepted_def)
next
  case (Cons selector rest)
  show ?case
  proof (cases "select item selector")
    case (Inl e)
    with Cons.IH show ?thesis by (simp add: first_accepted_def candidates_def)
  next
    case (Inr avail_elems)
    show ?thesis
    proof (cases "List.find accepted (map (\<lambda>el. strip (elem_text el)) avail_elems)")
      case None
      with Inr Cons.IH show ?thesis
        by (simp add: first_accepted_def candidates_def scan_elems_find find_append)
    next
      case (Some t)
      then have "t \<noteq> no_availability" by (rule find_accepted_not_sentinel)
      with Inr Some show ?thesis
        by (simp add: first_accepted_def candidates_def scan_elems_find find_append)
    qed
  qed
qed

lemma find_SomeD: "List.find P xs = Some x \<Longrightarrow> x \<in> set xs \<and> P x"
  by (induction xs) (auto split: if_splits)

lemma first_accepted_cases:
  "first_accepted item selectors = no_availability
   \<or> (first_accepted item selectors \<in> set (concat (map (candidates item) selectors))
      \<and> accepted (first_accepted item selectors))"
proof (cases "List.find accepted (concat (map (candidates item) selectors))")
  case None
  then show ?thesis by (simp add: first_accepted_def)
next
  case (Some t)
  from find_SomeD [OF Some] Some show ?thesis by (simp add: first_accepted_def)
qed

lemma candidates_stripped: "t \<in> set (candidates item selector) \<Longrightarrow> \<exists>u. t = strip u"
  by (auto simp: candidates_def split: sum.splits)

lemma find_availability_stripped:
  "find_availability item selectors \<noteq> no_availability \<Longrightarrow>
   \<exists>u. find_availability item selectors = strip u"
  using first_accepted_cases [of item selectors]
  by (auto simp: find_availability_def scan_selectors_first_accepted dest: candidates_stripped)

lemma candidates_raise: "select item sel = Inl x \<Longrightarrow> candidates item sel = []"
  by (simp add: candidates_def)

lemma find_availability_raise:
  "select item sel = Inl x \<Longrightarrow>
   find_availability item (pre @ sel # post) = find_availability item (pre @ post)"
  by (simp add: find_availability_def scan_selectors_first_accepted first_accepted_def
        candidates_raise)

lemma process_item_name_raises:
  "extract_name item name_selectors = Inl x \<Longrightarrow> process_item item = Inl x"
  by (simp add: process_item_def)

lemma process_item_url_raises:
  "extract_name item name_selectors = Inr n \<Longrightarrow> extract_url item url_selectors = Inl x \<Longrightarrow>
   process_item item = Inl x"
  by (simp add: process_item_def)

lemma collect_raise:
  "process_item item = Inl x \<Longrightarrow> collect (item # items) products = collect items products"
  by simp

section \<open>Claims\<close>

text \<open>
  C9: \<open>display_name\<close> is the name cut to 70 characters with the marker \<open>...\<close> appended
  when the name is longer than 70 characters, and the name itself otherwise; so it is never
  longer than 73 characters. The record of an item carries exactly this value.
\<close>

theorem display_name_truncated:
  "truncate_name n = (if 70 < length n then take 70 n @ ''...'' else n)
   \<and> length (truncate_name n) \<le> 73
   \<and> (process_item item = Inr p \<longrightarrow> display_name p = truncate_name (name p))"
  by (auto simp: truncate_name_def MAX_NAME_LENGTH_def process_item_def split: sum.splits)

theorem display_name_truncated_witness:
  "process_item lamp = Inr lamp_record
   \<and> 70 < length (name lamp_record)
   \<and> display_name lamp_record = take 70 (name lamp_record) @ ''...''
   \<and> length (display_name lamp_record) \<le> 73"
proof -
  have h: "process_item lamp = Inr lamp_record" by (rule lamp_processed)
  have l: "70 < length (name lamp_record)" by (simp add: lamp_record_def long_name_def)
  from display_name_truncated [of "name lamp_record" lamp lamp_record] h l
  have "display_name lamp_record = take 70 (name lamp_record) @ ''...''
        \<and> length (display_name lamp_record) \<le> 73"
    by simp
  with h l show ?thesis by simp
qed

text \<open>
  C10: a name rule whose selector matches an element is taken whatever the text of the
  element: when the text strips to the empty string, the name is the empty string and
  not \<open>N/A\<close>, whatever rules follow and whatever the item answers to them.
\<close>

theorem blank_name_is_kept:
  assumes "\<forall>s\<in>set pre. select_one item s = Inr None"
    and "select_one item sel = Inr (Some el)"
    and "strip (elem_text el) = []"
  shows "extract_name item (pre @ sel # post) = Inr []
   \<and> extract_name item (pre @ sel # post) \<noteq> Inr ''N/A''
   \<and> (name_selectors = pre @ sel # post \<longrightarrow> process_item item = Inr p \<longrightarrow> name p = [])"
proof -
  from assms have n: "extract_name item (pre @ sel # post) = Inr []"
    by (simp add: extract_name_first_match)
  have "name p = []" if "name_selectors = pre @ sel # post" and "process_item item = Inr p"
    using that n by (auto simp: process_item_def split: sum.splits)
  with n show ?thesis by simp
qed

theorem blank_name_is_kept_witness:
  "select_one blank ''.a-size-medium.a-color-base.a-text-normal'' = Inr None
   \<and> select_one blank ''.a-link-normal .a-text-normal''
       = Inr (Some (node [CHR '' '', CHR 0x0A, CHR '' '']))
   \<and> strip (elem_text (node [CHR '' '', CHR 0x0A, CHR '' ''])) = []
   \<and> select_one blank ''h2 a span'' = Inr (Some (node ''Grinder''))
   \<and> extract_name blank name_selectors = Inr []"
proof -
  have a: "\<forall>s\<in>set [''.a-size-medium.a-color-base.a-text-normal'']. select_one blank s = Inr None"
    by (simp add: sample_defs)
  have b: "select_one blank ''.a-link-normal .a-text-normal''
             = Inr (Some (node [CHR '' '', CHR 0x0A, CHR '' '']))"
    by (simp add: sample_defs)
  have c: "strip (elem_text (node [CHR '' '', CHR 0x0A, CHR '' ''])) = []"
    by (simp add: sample_defs string_defs)
  have d: "select_one blank ''h2 a span'' = Inr (Some (node ''Grinder''))"
    by (simp add: sample_defs)
  have e: "[''.a-size-medium.a-color-base.a-text-normal'']
             @ ''.a-link-normal .a-text-normal''
             # [''h2 a span'', ''.a-size-base-plus.a-color-base.a-text-normal'',
                ''h2 .a-link-normal''] = name_selectors"
    by (simp add: name_selectors_def)
  from blank_name_is_kept [OF a b c]
  have "extract_name blank
          ([''.a-size-medium.a-color-base.a-text-normal'']
             @ ''.a-link-normal .a-text-normal''
             # [''h2 a span'', ''.a-size-base-plus.a-color-base.a-text-normal'',
                ''h2 .a-link-normal'']) = Inr []"
    by (rule conjunct1)
  then have "extract_name blank name_selectors = Inr []"
    by (simp only: e)
  with a b c d show ?thesis by simp
qed

text \<open>
  C8, as the code has it: for an empty document, and for a document that the parser
  accepts and in which no product item is found, the result is the empty list and nothing
  is raised. The parser and the selection of the product items run outside every \<open>try\<close>:
  \<open>extract_product_data\<close> raises exactly when the document is not empty and one of them
  raises, and then with their exception.
\<close>

theorem no_items_unless_parser_raises:
  "extract_product_data soup_select [] = Inr []
   \<and> (soup_select html_content = Inr [] \<longrightarrow>
        extract_product_data soup_select html_content = Inr [])
   \<and> (extract_product_data soup_select html_content = Inl e
        \<longleftrightarrow> html_content \<noteq> [] \<and> soup_select html_content = Inl e)"
proof (intro conjI)
  show "extract_product_data soup_select [] = Inr []"
    by (simp add: extract_product_data_def)
  show "soup_select html_content = Inr [] \<longrightarrow>
        extract_product_data soup_select html_content = Inr []"
    by (simp add: extract_product_data_def)
  show "extract_product_data soup_select html_content = Inl e
        \<longleftrightarrow> html_content \<noteq> [] \<and> soup_select html_content = Inl e"
    by (cases "soup_select html_content") (simp_all add: extract_product_data_def)
qed

theorem no_items_unless_parser_raises_witness:
  "strict_parser ''<html></html>'' = Inr []
   \<and> extract_product_data strict_parser ''<html></html>'' = Inr []
   \<and> extract_product_data strict_parser [] = Inr []
   \<and> strict_parser ''<![foo]>'' = Inl (Exn ''ParserRejectedMarkup'')
   \<and> extract_product_data strict_parser ''<![foo]>'' = Inl (Exn ''ParserRejectedMarkup'')"
proof -
  have a: "strict_parser ''<html></html>'' = Inr []"
    and b: "strict_parser ''<![foo]>'' = Inl (Exn ''ParserRejectedMarkup'')"
    by (simp_all add: strict_parser_def)
  have c: "''<![foo]>'' \<noteq> [] \<and> strict_parser ''<![foo]>'' = Inl (Exn ''ParserRejectedMarkup'')"
    using b by simp
  note accepted_page = no_items_unless_parser_raises [of strict_parser "''<html></html>''"]
  note rejected_page =
    no_items_unless_parser_raises
      [of strict_parser "''<![foo]>''" "Exn ''ParserRejectedMarkup''"]
  from accepted_page [THEN conjunct2, THEN conjunct1, THEN mp, OF a]
  have r1: "extract_product_data strict_parser ''<html></html>'' = Inr []" .
  from accepted_page [THEN conjunct1]
  have r2: "extract_product_data strict_parser [] = Inr []" .
  from rejected_page [THEN conjunct2, THEN conjunct2, THEN iffD2, OF c]
  have r3: "extract_product_data strict_parser ''<![foo]>'' = Inl (Exn ''ParserRejectedMarkup'')" .
  from a r1 r2 b r3 show ?thesis by simp
qed

text \<open>
  C8 as stated fails for a document without product items that the parser rejects: the
  document \<open><![foo]>\<close> is not empty and has no product item, the parser raises on it, and
  the exception leaves \<open>extract_product_data\<close>.
\<close>

theorem rejected_markup_raises:
  "''<![foo]>'' \<noteq> []
   \<and> strict_parser ''<![foo]>'' = Inl (Exn ''ParserRejectedMarkup'')
   \<and> extract_product_data strict_parser ''<![foo]>'' = Inl (Exn ''ParserRejectedMarkup'')
   \<and> extract_product_data strict_parser ''<![foo]>'' \<noteq> Inr []"
  by (simp add: extract_product_data_def strict_parser_def)

lemma extract_product_data_items:
  "html_content \<noteq> [] \<Longrightarrow> soup_select html_content = Inr product_items \<Longrightarrow>
   extract_product_data soup_select html_content
     = Inr (List.map_filter record_of (take 10 product_items))"
  by (simp add: extract_product_data_def MAX_PRODUCTS_def collect_map_filter)

text \<open>
  C6: whatever the document, at most 10 records are returned; they are the records of the
  first 10 product items in document order, an item whose processing raises giving none.
  With 25 product items that can all be processed, exactly 10 records are returned: those
  of the first 10 items, in document order.
\<close>

theorem at_most_ten_records:
  "(extract_product_data soup_select html_content = Inr rs \<longrightarrow> length rs \<le> 10)
   \<and> (html_content \<noteq> [] \<and> soup_select html_content = Inr product_items \<longrightarrow>
        extract_product_data soup_select html_content
          = Inr (List.map_filter record_of (take 10 product_items)))
   \<and> (html_content \<noteq> [] \<and> soup_select html_content = Inr product_items
        \<and> length product_items = 25 \<and> (\<forall>item\<in>set product_items. record_of item \<noteq> None) \<longrightarrow>
        extract_product_data soup_select html_content
          = Inr (map (\<lambda>item. the (record_of item)) (take 10 product_items))
        \<and> length (map (\<lambda>item. the (record_of item)) (take 10 product_items)) = 10)"
proof (intro conjI impI)
  assume r: "extract_product_data soup_select html_content = Inr rs"
  show "length rs \<le> 10"
  proof (cases "html_content = []")
    case True
    with r show ?thesis by (simp add: extract_product_data_def)
  next
    case False
    with r obtain product_items where s: "soup_select html_content = Inr product_items"
      by (auto simp: extract_product_data_def split: sum.splits)
    from extract_product_data_items [of html_content soup_select product_items] False s r
    have "rs = List.map_filter record_of (take 10 product_items)" by simp
    moreover have "length (List.map_filter record_of (take 10 product_items))
                     \<le> length (take 10 product_items)"
      by (rule length_map_filter_le)
    ultimately show ?thesis by simp
  qed
next
  assume "html_content \<noteq> [] \<and> soup_select html_content = Inr product_items"
  then show "extract_product_data soup_select html_content
               = Inr (List.map_filter record_of (take 10 product_items))"
    by (simp add: extract_product_data_items)
next
  assume a: "html_content \<noteq> [] \<and> soup_select html_content = Inr product_items
        \<and> length product_items = 25 \<and> (\<forall>item\<in>set product_items. record_of item \<noteq> None)"
  then have "\<forall>item\<in>set (take 10 product_items). record_of item \<noteq> None"
    by (meson in_set_takeD)
  then have "List.map_filter record_of (take 10 product_items)
               = map (\<lambda>item. the (record_of item)) (take 10 product_items)"
    by (rule map_filter_all_Some)
  with a show "extract_product_data soup_select html_content
                 = Inr (map (\<lambda>item. the (record_of item)) (take 10 product_items))"
    by (simp add: extract_product_data_items)
next
  assume "html_content \<noteq> [] \<and> soup_select html_content = Inr product_items
        \<and> length product_items = 25 \<and> (\<forall>item\<in>set product_items. record_of item \<noteq> None)"
  then show "length (map (\<lambda>item. the (record_of item)) (take 10 product_items)) = 10"
    by simp
qed

theorem at_most_ten_records_witness:
  "length page25 = 25
   \<and> record_of kettle = Some kettle_record
   \<and> record_of toaster = Some toaster_record
   \<and> record_of lamp = Some lamp_record
   \<and> extract_product_data (\<lambda>html. Inr page25) ''<html>''
       = Inr [kettle_record, toaster_record, lamp_record, kettle_record, toaster_record,
              lamp_record, kettle_record, toaster_record, lamp_record, kettle_record]"
proof -
  have l: "length page25 = 25" by (simp add: page25_def)
  have k: "record_of kettle = Some kettle_record"
    and t: "record_of toaster = Some toaster_record"
    and m: "record_of lamp = Some lamp_record"
    by (simp_all add: record_of_def kettle_processed toaster_processed lamp_processed)
  from k t m have all: "\<forall>item\<in>set page25. record_of item \<noteq> None"
    by (simp add: page25_def)
  have h: "''<html>'' \<noteq> []" by simp
  from h l all
  have "''<html>'' \<noteq> [] \<and> (\<lambda>html. Inr page25) ''<html>'' = Inr page25
        \<and> length page25 = 25 \<and> (\<forall>item\<in>set page25. record_of item \<noteq> None)"
    by simp
  with at_most_ten_records [of "\<lambda>html. Inr page25" "''<html>''" "[]" page25]
  have "extract_product_data (\<lambda>html. Inr page25) ''<html>''
          = Inr (map (\<lambda>item. the (record_of item)) (take 10 page25))"
    by blast
  also have "map (\<lambda>item. the (record_of item)) (take 10 page25)
      = [kettle_record, toaster_record, lamp_record, kettle_record, toaster_record,
         lamp_record, kettle_record, toaster_record, lamp_record, kettle_record]"
    by (simp add: page25_def k t m)
  finally show ?thesis using l k t m by simp
qed

lemma collect_skip:
  "process_item item = Inl x \<Longrightarrow>
   collect (before @ item # after) products = collect (before @ after) products"
  by (simp add: collect_map_filter map_filter_append record_of_def)

text \<open>
  C7: an item whose processing raises is passed over and the items after it are still
  processed: the result is that of the same items without it. With three items of which
  only the second raises, the result is the records of the first and the third, in order.
\<close>

theorem failing_item_is_skipped:
  "(process_item item2 = Inl x \<longrightarrow>
      collect (before @ item2 # after) products = collect (before @ after) products)
   \<and> (html_content \<noteq> [] \<and> soup_select html_content = Inr [item1, item2, item3]
        \<and> process_item item1 = Inr p1 \<and> process_item item2 = Inl x
        \<and> process_item item3 = Inr p3 \<longrightarrow>
        extract_product_data soup_select html_content = Inr [p1, p3])"
  by (simp add: collect_skip extract_product_data_def MAX_PRODUCTS_def)

theorem failing_item_is_skipped_witness:
  "process_item kettle = Inr kettle_record
   \<and> process_item broken = Inl (Exn ''boom'')
   \<and> process_item toaster = Inr toaster_record
   \<and> extract_product_data (\<lambda>html. Inr [kettle, broken, toaster]) ''<html>''
       = Inr [kettle_record, toaster_record]"
proof -
  have h: "''<html>'' \<noteq> []" by simp
  from failing_item_is_skipped
         [of broken "Exn ''boom''" _ _ _ "''<html>''" "\<lambda>html. Inr [kettle, broken, toaster]"
             kettle toaster kettle_record toaster_record]
       h kettle_processed broken_raises toaster_processed
  have "extract_product_data (\<lambda>html. Inr [kettle, broken, toaster]) ''<html>''
          = Inr [kettle_record, toaster_record]"
    by simp
  with kettle_processed broken_raises toaster_processed show ?thesis by simp
qed

text \<open>
  C3: the availability found for an item is the first accepted candidate, taking the
  rules in order and, within a rule, all elements its selector matches in document order.
  A value other than the sentinel is therefore the trimmed text of a matched element, is
  longer than 3 characters and contains one of the keywords when put in lower case. A
  record whose availability is not the sentinel comes from such a value.
\<close>

theorem availability_is_first_accepted:
  "find_availability item selectors = first_accepted item selectors
   \<and> (find_availability item selectors \<noteq> no_availability \<longrightarrow>
        find_availability item selectors \<in> set (concat (map (candidates item) selectors))
        \<and> 3 < length (find_availability item selectors)
        \<and> (\<exists>keyword\<in>set availability_keywords.
              str_in keyword (lower (find_availability item selectors))))
   \<and> (process_item item = Inr p \<and> availability p \<noteq> no_availability \<longrightarrow>
        find_availability item availability_selectors \<noteq> no_availability)"
proof -
  have eq: "find_availability item selectors = first_accepted item selectors"
    by (simp add: find_availability_def scan_selectors_first_accepted)
  have acc: "find_availability item selectors \<in> set (concat (map (candidates item) selectors))
        \<and> 3 < length (find_availability item selectors)
        \<and> (\<exists>keyword\<in>set availability_keywords.
              str_in keyword (lower (find_availability item selectors)))"
    if "find_availability item selectors \<noteq> no_availability"
    using that first_accepted_cases [of item selectors]
    by (auto simp: eq accepted_def list_ex_iff)
  have "find_availability item availability_selectors \<noteq> no_availability"
    if "process_item item = Inr p \<and> availability p \<noteq> no_availability"
    using that by (auto simp: process_item_def clean_availability_def split: sum.splits)
  with eq acc show ?thesis by blast
qed

theorem availability_is_first_accepted_witness:
  "candidates kettle ''.a-color-success'' = []
   \<and> candidates kettle ''.a-color-price''
       = [''$19.99'', ''Only 3 left in   stock - order soon, ships tomorrow'']
   \<and> \<not> accepted ''$19.99''
   \<and> find_availability kettle availability_selectors
       = ''Only 3 left in   stock - order soon, ships tomorrow''
   \<and> 3 < length (find_availability kettle availability_selectors)
   \<and> str_in ''stock'' (lower (find_availability kettle availability_selectors))"
proof -
  have a: "candidates kettle ''.a-color-success'' = []"
    by (simp add: candidates_def sample_defs)
  have b: "candidates kettle ''.a-color-price''
       = [''$19.99'', ''Only 3 left in   stock - order soon, ships tomorrow'']"
    by (simp add: candidates_def sample_defs string_defs)
  have c: "\<not> accepted ''$19.99''"
    by (simp add: field_defs string_defs)
  have d: "accepted ''Only 3 left in   stock - order soon, ships tomorrow''"
    by (simp add: field_defs string_defs)
  have "first_accepted kettle availability_selectors
          = ''Only 3 left in   stock - order soon, ships tomorrow''"
    by (simp add: first_accepted_def availability_selectors_def a b c d)
  with availability_is_first_accepted [of kettle availability_selectors]
  have e: "find_availability kettle availability_selectors
       = ''Only 3 left in   stock - order soon, ships tomorrow''"
    by simp
  have f: "3 < length ''Only 3 left in   stock - order soon, ships tomorrow''" by simp
  have g: "str_in ''stock'' (lower ''Only 3 left in   stock - order soon, ships tomorrow'')"
    by (simp add: string_defs)
  from a b c e f g show ?thesis by simp
qed

text \<open>
  C4: an accepted availability value has every run of whitespace replaced by one space;
  when the result is longer than 30 characters it is cut to exactly 30 characters and
  \<open>...\<close> is appended, 33 characters in all. The sentinel is left as it is. The record of
  an item carries the value cleaned in this way.
\<close>

theorem availability_clean_up:
  "(find_availability item selectors \<noteq> no_availability \<longrightarrow>
      clean_availability (find_availability item selectors) =
        (if 30 < length (collapse_runs (find_availability item selectors))
         then take 30 (collapse_runs (find_availability item selectors)) @ ''...''
         else collapse_runs (find_availability item selectors)))
   \<and> (30 < length (collapse_runs a) \<longrightarrow>
        length (take 30 (collapse_runs a)) = 30
        \<and> length (take 30 (collapse_runs a) @ ''...'') = 33)
   \<and> clean_availability no_availability = no_availability
   \<and> (process_item item = Inr p \<longrightarrow>
        availability p = clean_availability (find_availability item availability_selectors))"
proof -
  have "clean_availability (find_availability item selectors) =
        (if 30 < length (collapse_runs (find_availability item selectors))
         then take 30 (collapse_runs (find_availability item selectors)) @ ''...''
         else collapse_runs (find_availability item selectors))"
    if ne: "find_availability item selectors \<noteq> no_availability"
  proof -
    from ne obtain u where "find_availability item selectors = strip u"
      using find_availability_stripped by blast
    with ne show ?thesis
      by (simp add: clean_availability_def join_split_strip)
  qed
  moreover have "clean_availability no_availability = no_availability"
    by (simp add: clean_availability_def)
  moreover have "availability p
                   = clean_availability (find_availability item availability_selectors)"
    if "process_item item = Inr p"
    using that by (auto simp: process_item_def split: sum.splits)
  ultimately show ?thesis by simp
qed

theorem availability_clean_up_witness:
  "find_availability kettle availability_selectors
     = ''Only 3 left in   stock - order soon, ships tomorrow''
   \<and> collapse_runs ''Only 3 left in   stock - order soon, ships tomorrow''
       = ''Only 3 left in stock - order soon, ships tomorrow''
   \<and> 30 < length ''Only 3 left in stock - order soon, ships tomorrow''
   \<and> clean_availability (find_availability kettle availability_selectors)
       = ''Only 3 left in stock - order s...''
   \<and> process_item kettle = Inr kettle_record
   \<and> availability kettle_record = ''Only 3 left in stock - order s...''"
proof -
  have a: "find_availability kettle availability_selectors
     = ''Only 3 left in   stock - order soon, ships tomorrow''"
    by (simp add: sample_defs field_defs string_defs)
  have b: "collapse_runs ''Only 3 left in   stock - order soon, ships tomorrow''
       = ''Only 3 left in stock - order soon, ships tomorrow''"
    by (simp add: isspace_def)
  have c: "''Only 3 left in   stock - order soon, ships tomorrow'' \<noteq> no_availability"
    by (simp add: no_availability_def)
  from availability_clean_up [of kettle availability_selectors] a b c
  have d: "clean_availability (find_availability kettle availability_selectors)
       = ''Only 3 left in stock - order s...''"
    by simp
  from a b d kettle_processed show ?thesis by (simp add: kettle_record_def)
qed

text \<open>
  C1, as the code has it: the name is the trimmed text of the element of the first rule, in
  list order, whose selector matches an element. For the URL a rule counts only when the
  element its selector finds has an \<open>href\<close> attribute; a rule whose element has none is
  passed over like a rule that finds nothing, and the URL is made from the \<open>href\<close> of the
  first rule that counts. In both loops no rule after that one is evaluated: the result
  is the same for any rules that follow and for any item that answers the rules up to
  that one in the same way.
\<close>

theorem first_matching_rule_wins:
  "((\<forall>s\<in>set pre. select_one item s = Inr None) \<and> select_one item sel = Inr (Some el) \<longrightarrow>
      extract_name item (pre @ sel # post) = Inr (strip (elem_text el))
      \<and> ((\<forall>s\<in>set (pre @ [sel]). select_one item' s = select_one item s) \<longrightarrow>
           extract_name item' (pre @ sel # post') = extract_name item (pre @ sel # post)))
   \<and> ((\<forall>s\<in>set pre. url_rule_fails item s) \<and> select_one item sel = Inr (Some el)
        \<and> map_of (elem_attrs el) ''href'' = Some h \<longrightarrow>
      extract_url item (pre @ sel # post) = Inr (url_or_default (Some (absolute_url h)))
      \<and> ((\<forall>s\<in>set (pre @ [sel]). select_one item' s = select_one item s) \<longrightarrow>
           extract_url item' (pre @ sel # post') = extract_url item (pre @ sel # post)))"
proof (intro conjI impI)
  assume a: "(\<forall>s\<in>set pre. select_one item s = Inr None) \<and> select_one item sel = Inr (Some el)"
  then show n: "extract_name item (pre @ sel # post) = Inr (strip (elem_text el))"
    by (simp add: extract_name_first_match)
  assume "\<forall>s\<in>set (pre @ [sel]). select_one item' s = select_one item s"
  with a have "(\<forall>s\<in>set pre. select_one item' s = Inr None)"
    and "select_one item' sel = Inr (Some el)"
    by simp_all
  then have "extract_name item' (pre @ sel # post') = Inr (strip (elem_text el))"
    by (rule extract_name_first_match)
  with n show "extract_name item' (pre @ sel # post') = extract_name item (pre @ sel # post)"
    by simp
next
  assume a: "(\<forall>s\<in>set pre. url_rule_fails item s) \<and> select_one item sel = Inr (Some el)
        \<and> map_of (elem_attrs el) ''href'' = Some h"
  then show u: "extract_url item (pre @ sel # post)
                  = Inr (url_or_default (Some (absolute_url h)))"
    by (simp add: extract_url_def find_url_first_match)
  assume "\<forall>s\<in>set (pre @ [sel]). select_one item' s = select_one item s"
  with a have "(\<forall>s\<in>set pre. url_rule_fails item' s)"
    and "select_one item' sel = Inr (Some el)"
    by (simp_all add: url_rule_fails_def)
  with a have "find_url item' (pre @ sel # post') = Inr (Some (absolute_url h))"
    by (simp add: find_url_first_match)
  with u show "extract_url item' (pre @ sel # post') = extract_url item (pre @ sel # post)"
    by (simp add: extract_url_def)
qed

theorem first_matching_rule_wins_witness:
  "select_one kettle ''.a-size-medium.a-color-base.a-text-normal'' = Inr None
   \<and> select_one kettle ''.a-link-normal .a-text-normal'' = Inr None
   \<and> select_one kettle ''h2 a span'' = Inr (Some (node ''  Kettle 1.7 L  ''))
   \<and> extract_name kettle name_selectors = Inr ''Kettle 1.7 L''
   \<and> select_one (raising_on ''h2 .a-link-normal'' (Exn ''boom'') kettle) ''h2 .a-link-normal''
       = Inl (Exn ''boom'')
   \<and> extract_name (raising_on ''h2 .a-link-normal'' (Exn ''boom'') kettle) name_selectors
       = Inr ''Kettle 1.7 L''
   \<and> url_rule_fails blender ''h2 a.a-link-normal''
   \<and> select_one blender ''.a-link-normal.s-underline-text''
       = Inr (Some (link ''Blender'' ''/dp/B02''))
   \<and> extract_url blender url_selectors = Inr ''https://www.amazon.com/dp/B02''
   \<and> extract_url (raising_on ''.a-link-normal.s-no-outline'' (Exn ''boom'') blender)
         url_selectors = Inr ''https://www.amazon.com/dp/B02''"
proof -
  let ?k = "raising_on ''h2 .a-link-normal'' (Exn ''boom'') kettle"
  let ?b = "raising_on ''.a-link-normal.s-no-outline'' (Exn ''boom'') blender"
  let ?pre = "[''.a-size-medium.a-color-base.a-text-normal'', ''.a-link-normal .a-text-normal'']"
  let ?post = "[''.a-size-base-plus.a-color-base.a-text-normal'', ''h2 .a-link-normal'']"
  have n1: "select_one kettle ''.a-size-medium.a-color-base.a-text-normal'' = Inr None"
    and n2: "select_one kettle ''.a-link-normal .a-text-normal'' = Inr None"
    and n3: "select_one kettle ''h2 a span'' = Inr (Some (node ''  Kettle 1.7 L  ''))"
    and n4: "select_one ?k ''h2 .a-link-normal'' = Inl (Exn ''boom'')"
    and n5: "\<forall>s\<in>set (?pre @ [''h2 a span'']). select_one ?k s = select_one kettle s"
    by (simp_all add: sample_defs)
  have ns: "name_selectors = ?pre @ ''h2 a span'' # ?post"
    by (simp add: name_selectors_def)
  have st: "strip (elem_text (node ''  Kettle 1.7 L  '')) = ''Kettle 1.7 L''"
    by (simp add: node_def string_defs)
  from n1 n2 n3
  have hn: "(\<forall>s\<in>set ?pre. select_one kettle s = Inr None)
            \<and> select_one kettle ''h2 a span'' = Inr (Some (node ''  Kettle 1.7 L  ''))"
    by simp
  have u1: "url_rule_fails blender ''h2 a.a-link-normal''"
    and u2: "select_one blender ''.a-link-normal.s-underline-text''
               = Inr (Some (link ''Blender'' ''/dp/B02''))"
    and u3: "map_of (elem_attrs (link ''Blender'' ''/dp/B02'')) ''href'' = Some ''/dp/B02''"
    and u4: "\<forall>s\<in>set ([''h2 a.a-link-normal''] @ [''.a-link-normal.s-underline-text'']).
               select_one ?b s = select_one blender s"
    by (simp_all add: sample_defs url_rule_fails_def)
  have us: "url_selectors = [''h2 a.a-link-normal''] @ ''.a-link-normal.s-underline-text''
              # [''.a-link-normal.s-no-outline'']"
    by (simp add: url_selectors_def)
  have ab: "url_or_default (Some (absolute_url ''/dp/B02'')) = ''https://www.amazon.com/dp/B02''"
    by (simp add: url_or_default_def absolute_url_def)
  from u1 u2 u3
  have hu: "(\<forall>s\<in>set [''h2 a.a-link-normal'']. url_rule_fails blender s)
            \<and> select_one blender ''.a-link-normal.s-underline-text''
                = Inr (Some (link ''Blender'' ''/dp/B02''))
            \<and> map_of (elem_attrs (link ''Blender'' ''/dp/B02'')) ''href'' = Some ''/dp/B02''"
    by simp
  note nrule = first_matching_rule_wins
    [of ?pre kettle "''h2 a span''" "node ''  Kettle 1.7 L  ''" ?post ?k ?post]
  note urule = first_matching_rule_wins
    [of "[''h2 a.a-link-normal'']" blender "''.a-link-normal.s-underline-text''"
        "link ''Blender'' ''/dp/B02''" "[''.a-link-normal.s-no-outline'']" ?b
        "[''.a-link-normal.s-no-outline'']" "''/dp/B02''"]
  from nrule hn n5 have "extract_name kettle (?pre @ ''h2 a span'' # ?post)
                         = Inr (strip (elem_text (node ''  Kettle 1.7 L  '')))"
    and "extract_name ?k (?pre @ ''h2 a span'' # ?post)
           = extract_name kettle (?pre @ ''h2 a span'' # ?post)"
    by blast+
  then have r1: "extract_name kettle name_selectors = Inr ''Kettle 1.7 L''"
    and r2: "extract_name ?k name_selectors = Inr ''Kettle 1.7 L''"
    by (simp_all only: ns [symmetric] st)
  from urule hu u4
  have "extract_url blender
          ([''h2 a.a-link-normal''] @ ''.a-link-normal.s-underline-text''
             # [''.a-link-normal.s-no-outline''])
          = Inr (url_or_default (Some (absolute_url ''/dp/B02'')))"
    and "extract_url ?b
           ([''h2 a.a-link-normal''] @ ''.a-link-normal.s-underline-text''
              # [''.a-link-normal.s-no-outline''])
           = extract_url blender
               ([''h2 a.a-link-normal''] @ ''.a-link-normal.s-underline-text''
                  # [''.a-link-normal.s-no-outline''])"
    by blast+
  then have r3: "extract_url blender url_selectors = Inr ''https://www.amazon.com/dp/B02''"
    and r4: "extract_url ?b url_selectors = Inr ''https://www.amazon.com/dp/B02''"
    by (simp_all only: us [symmetric] ab)
  from n1 n2 n3 n4 r1 r2 u1 u2 r3 r4 show ?thesis by simp
qed

text \<open>
  C1 as stated fails for the URL: the first URL selector matches an element of \<open>blender\<close>,
  an anchor without \<open>href\<close>, and yet the second rule is evaluated: its value is the
  result, and when the library raises on it the exception is the result.
\<close>

theorem later_url_rule_is_evaluated:
  "select_one blender ''h2 a.a-link-normal'' = Inr (Some (node ''Blender''))
   \<and> url_selectors ! 0 = ''h2 a.a-link-normal''
   \<and> url_selectors ! 1 = ''.a-link-normal.s-underline-text''
   \<and> extract_url blender url_selectors = Inr ''https://www.amazon.com/dp/B02''
   \<and> extract_url (raising_on ''.a-link-normal.s-underline-text'' (Exn ''boom'') blender)
         url_selectors = Inl (Exn ''boom'')"
  by (simp add: sample_defs field_defs)

text \<open>
  C5, as the code has it: the \<open>href\<close> value of the first URL rule that counts is prefixed
  with \<open>https://www.amazon.com\<close> when it starts with \<open>/\<close>, and is returned unchanged when
  it does not and is not empty; an empty value gives the sentinel \<open>No URL available\<close>, and so
  does an item for which no URL rule counts.
\<close>

theorem url_made_absolute:
  "((\<forall>s\<in>set pre. url_rule_fails item s) \<and> select_one item sel = Inr (Some el)
      \<and> map_of (elem_attrs el) ''href'' = Some h \<longrightarrow>
      extract_url item (pre @ sel # post) =
        Inr (if h = [] then ''No URL available''
             else if startswith h ''/'' then ''https://www.amazon.com'' @ h
             else h))
   \<and> ((\<forall>s\<in>set selectors. url_rule_fails item s) \<longrightarrow>
        extract_url item selectors = Inr ''No URL available'')"
proof (intro conjI impI)
  assume "(\<forall>s\<in>set pre. url_rule_fails item s) \<and> select_one item sel = Inr (Some el)
      \<and> map_of (elem_attrs el) ''href'' = Some h"
  then have "find_url item (pre @ sel # post) = Inr (Some (absolute_url h))"
    by (simp add: find_url_first_match)
  then show "extract_url item (pre @ sel # post) =
        Inr (if h = [] then ''No URL available''
             else if startswith h ''/'' then ''https://www.amazon.com'' @ h
             else h)"
    by (cases h) (simp_all add: extract_url_def url_or_default_def absolute_url_def)
next
  assume "\<forall>s\<in>set selectors. url_rule_fails item s"
  then have "find_url item selectors = Inr None"
    by (rule find_url_all_fail)
  then show "extract_url item selectors = Inr ''No URL available''"
    by (simp add: extract_url_def url_or_default_def)
qed

theorem url_made_absolute_witness:
  "select_one kettle ''h2 a.a-link-normal'' = Inr (Some (link ''Kettle'' ''/dp/B01''))
   \<and> extract_url kettle url_selectors = Inr ''https://www.amazon.com/dp/B01''
   \<and> url_rule_fails toaster ''h2 a.a-link-normal''
   \<and> url_rule_fails toaster ''.a-link-normal.s-underline-text''
   \<and> select_one toaster ''.a-link-normal.s-no-outline''
       = Inr (Some (link ''Toaster'' ''https://www.amazon.com/dp/B03''))
   \<and> extract_url toaster url_selectors = Inr ''https://www.amazon.com/dp/B03''
   \<and> select_one mixer ''h2 a.a-link-normal'' = Inr (Some (link ''Mixer'' []))
   \<and> extract_url mixer url_selectors = Inr ''No URL available''
   \<and> url_rule_fails lamp ''h2 a.a-link-normal''
   \<and> url_rule_fails lamp ''.a-link-normal.s-underline-text''
   \<and> url_rule_fails lamp ''.a-link-normal.s-no-outline''
   \<and> extract_url lamp url_selectors = Inr ''No URL available''"
proof -
  have k1: "select_one kettle ''h2 a.a-link-normal'' = Inr (Some (link ''Kettle'' ''/dp/B01''))"
    and k2: "map_of (elem_attrs (link ''Kettle'' ''/dp/B01'')) ''href'' = Some ''/dp/B01''"
    by (simp_all add: sample_defs)
  have t1: "url_rule_fails toaster ''h2 a.a-link-normal''"
    and t2: "url_rule_fails toaster ''.a-link-normal.s-underline-text''"
    and t3: "select_one toaster ''.a-link-normal.s-no-outline''
               = Inr (Some (link ''Toaster'' ''https://www.amazon.com/dp/B03''))"
    and t4: "map_of (elem_attrs (link ''Toaster'' ''https://www.amazon.com/dp/B03'')) ''href''
               = Some ''https://www.amazon.com/dp/B03''"
    by (simp_all add: sample_defs url_rule_fails_def)
  have m1: "select_one mixer ''h2 a.a-link-normal'' = Inr (Some (link ''Mixer'' []))"
    and m2: "map_of (elem_attrs (link ''Mixer'' [])) ''href'' = Some []"
    by (simp_all add: sample_defs)
  have l1: "url_rule_fails lamp ''h2 a.a-link-normal''"
    and l2: "url_rule_fails lamp ''.a-link-normal.s-underline-text''"
    and l3: "url_rule_fails lamp ''.a-link-normal.s-no-outline''"
    by (simp_all add: sample_defs url_rule_fails_def)
  have us: "url_selectors = [] @ ''h2 a.a-link-normal''
              # [''.a-link-normal.s-underline-text'', ''.a-link-normal.s-no-outline'']"
    and us': "url_selectors = [''h2 a.a-link-normal'', ''.a-link-normal.s-underline-text'']
              @ ''.a-link-normal.s-no-outline'' # []"
    by (simp_all add: url_selectors_def)
  from url_made_absolute
         [of "[]" kettle "''h2 a.a-link-normal''" "link ''Kettle'' ''/dp/B01''" "''/dp/B01''"
             "[''.a-link-normal.s-underline-text'', ''.a-link-normal.s-no-outline'']"]
       k1 k2
  have rk: "extract_url kettle url_selectors = Inr ''https://www.amazon.com/dp/B01''"
    by (simp add: us)
  from url_made_absolute
         [of "[''h2 a.a-link-normal'', ''.a-link-normal.s-underline-text'']" toaster
             "''.a-link-normal.s-no-outline''"
             "link ''Toaster'' ''https://www.amazon.com/dp/B03''"
             "''https://www.amazon.com/dp/B03''" "[]"]
       t1 t2 t3 t4
  have rt: "extract_url toaster url_selectors = Inr ''https://www.amazon.com/dp/B03''"
    by (simp add: us')
  from url_made_absolute
         [of "[]" mixer "''h2 a.a-link-normal''" "link ''Mixer'' []" "[]"
             "[''.a-link-normal.s-underline-text'', ''.a-link-normal.s-no-outline'']"]
       m1 m2
  have rm: "extract_url mixer url_selectors = Inr ''No URL available''"
    by (simp add: us)
  from url_made_absolute [where selectors = url_selectors and item = lamp] l1 l2 l3
  have rl: "extract_url lamp url_selectors = Inr ''No URL available''"
    by (simp add: url_selectors_def)
  from k1 rk t1 t2 t3 rt m1 rm l1 l2 l3 rl show ?thesis by simp
qed

text \<open>
  C5 as stated fails at the empty \<open>href\<close>: it does not start with \<open>/\<close>, and it is not
  passed through unchanged, because the test \<open>if not url\<close> replaces it by the sentinel.
\<close>

theorem empty_href_gives_sentinel:
  "select_one mixer ''h2 a.a-link-normal'' = Inr (Some (link ''Mixer'' []))
   \<and> map_of (elem_attrs (link ''Mixer'' [])) ''href'' = Some []
   \<and> \<not> startswith [] ''/''
   \<and> extract_url mixer url_selectors = Inr ''No URL available''
   \<and> extract_url mixer url_selectors \<noteq> Inr []"
  by (simp add: sample_defs field_defs)

text \<open>
  C2, as the code has it. An availability rule whose selection raises is treated as a
  rule that matches nothing and the next rule is tried, so nothing raised by an
  availability rule leaves the availability loop: when name, URL and price are found, the
  item has a record. A name rule or a URL rule that raises is not treated as a rule
  that matches nothing: the exception leaves the loop, no later rule is tried, the
  processing of the item ends with that exception and the item is passed over.
\<close>

theorem rule_exceptions:
  "(select item sel = Inl x \<longrightarrow>
      scan_selectors item (sel # rest) a = scan_selectors item rest a
      \<and> find_availability item (pre @ sel # post) = find_availability item (pre @ post))
   \<and> (extract_name item name_selectors = Inr n \<and> extract_url item url_selectors = Inr u
        \<and> extract_price item = Inr pr \<longrightarrow>
        process_item item =
          Inr \<lparr>name = n, display_name = truncate_name n, price = pr,
               availability =
                 clean_availability (find_availability item availability_selectors),
               url = u\<rparr>)
   \<and> ((\<forall>s\<in>set pre. select_one item s = Inr None) \<and> select_one item sel = Inl x \<longrightarrow>
        extract_name item (pre @ sel # post) = Inl x
        \<and> (name_selectors = pre @ sel # post \<longrightarrow>
             process_item item = Inl x
             \<and> collect (item # items) products = collect items products))
   \<and> ((\<forall>s\<in>set pre. url_rule_fails item s) \<and> select_one item sel = Inl x \<longrightarrow>
        extract_url item (pre @ sel # post) = Inl x
        \<and> (url_selectors = pre @ sel # post \<and> extract_name item name_selectors = Inr n \<longrightarrow>
             process_item item = Inl x
             \<and> collect (item # items) products = collect items products))"
proof (intro conjI impI)
  assume "select item sel = Inl x"
  then show "scan_selectors item (sel # rest) a = scan_selectors item rest a"
    and "find_availability item (pre @ sel # post) = find_availability item (pre @ post)"
    by (simp_all add: find_availability_raise)
next
  assume "extract_name item name_selectors = Inr n \<and> extract_url item url_selectors = Inr u
        \<and> extract_price item = Inr pr"
  then show "process_item item =
          Inr \<lparr>name = n, display_name = truncate_name n, price = pr,
               availability =
                 clean_availability (find_availability item availability_selectors),
               url = u\<rparr>"
    by (simp add: process_item_def)
next
  assume a: "(\<forall>s\<in>set pre. select_one item s = Inr None) \<and> select_one item sel = Inl x"
  then show n: "extract_name item (pre @ sel # post) = Inl x"
    by (simp add: extract_name_no_match)
  assume "name_selectors = pre @ sel # post"
  with n have "extract_name item name_selectors = Inl x" by simp
  then show p: "process_item item = Inl x" by (rule process_item_name_raises)
  from p show "collect (item # items) products = collect items products"
    by (rule collect_raise)
next
  assume a: "(\<forall>s\<in>set pre. url_rule_fails item s) \<and> select_one item sel = Inl x"
  then have "find_url item (pre @ sel # post) = Inl x"
    by (simp add: find_url_raises)
  then show u: "extract_url item (pre @ sel # post) = Inl x"
    by (simp add: extract_url_def)
  assume b: "url_selectors = pre @ sel # post \<and> extract_name item name_selectors = Inr n"
  with u have "extract_url item url_selectors = Inl x" by simp
  with b show p: "process_item item = Inl x" by (simp add: process_item_url_raises)
  from p show "collect (item # items) products = collect items products"
    by (rule collect_raise)
qed

theorem rule_exceptions_witness:
  "select (raising_on ''.a-color-success'' (Exn ''boom'') kettle) ''.a-color-success''
     = Inl (Exn ''boom'')
   \<and> find_availability (raising_on ''.a-color-success'' (Exn ''boom'') kettle)
         availability_selectors
       = ''Only 3 left in   stock - order soon, ships tomorrow''
   \<and> process_item (raising_on ''.a-color-success'' (Exn ''boom'') kettle) = Inr kettle_record
   \<and> select_one broken ''.a-size-medium.a-color-base.a-text-normal'' = Inr None
   \<and> select_one broken ''.a-link-normal .a-text-normal'' = Inl (Exn ''boom'')
   \<and> extract_name broken name_selectors = Inl (Exn ''boom'')
   \<and> process_item broken = Inl (Exn ''boom'')
   \<and> collect [broken, toaster] [] = collect [toaster] []
   \<and> select_one (raising_on ''h2 a.a-link-normal'' (Exn ''boom'') kettle) ''h2 a.a-link-normal''
       = Inl (Exn ''boom'')
   \<and> extract_name (raising_on ''h2 a.a-link-normal'' (Exn ''boom'') kettle) name_selectors
       = Inr ''Kettle 1.7 L''
   \<and> extract_url (raising_on ''h2 a.a-link-normal'' (Exn ''boom'') kettle) url_selectors
       = Inl (Exn ''boom'')
   \<and> process_item (raising_on ''h2 a.a-link-normal'' (Exn ''boom'') kettle) = Inl (Exn ''boom'')"
proof -
  let ?a = "raising_on ''.a-color-success'' (Exn ''boom'') kettle"
  let ?u = "raising_on ''h2 a.a-link-normal'' (Exn ''boom'') kettle"
  let ?npost = "[''h2 a span'', ''.a-size-base-plus.a-color-base.a-text-normal'',
                 ''h2 .a-link-normal'']"
  let ?upost = "[''.a-link-normal.s-underline-text'', ''.a-link-normal.s-no-outline'']"
  have a1: "select ?a ''.a-color-success'' = Inl (Exn ''boom'')"
    by (simp add: sample_defs)
  have a2: "find_availability ?a (tl availability_selectors)
              = ''Only 3 left in   stock - order soon, ships tomorrow''"
    by (simp add: sample_defs field_defs string_defs)
  have a3: "extract_name ?a name_selectors = Inr ''Kettle 1.7 L''"
    and a4: "extract_url ?a url_selectors = Inr ''https://www.amazon.com/dp/B01''"
    and a5: "extract_price ?a = Inr ''$19.99''"
    by (simp_all add: sample_defs field_defs string_defs)
  have as: "''.a-color-success'' # tl availability_selectors = availability_selectors"
    by (simp add: availability_selectors_def)
  have cl: "clean_availability ''Only 3 left in   stock - order soon, ships tomorrow''
              = ''Only 3 left in stock - order s...''"
    by (simp add: field_defs string_defs)
  note av = rule_exceptions
    [where item = ?a and sel = "''.a-color-success''" and x = "Exn ''boom''" and pre = "[]"
       and post = "tl availability_selectors" and n = "''Kettle 1.7 L''"
       and u = "''https://www.amazon.com/dp/B01''" and pr = "''$19.99''"]
  from av [THEN conjunct1, THEN mp, OF a1, THEN conjunct2]
  have "find_availability ?a (''.a-color-success'' # tl availability_selectors)
          = find_availability ?a (tl availability_selectors)"
    by simp
  with a2 have r1: "find_availability ?a availability_selectors
              = ''Only 3 left in   stock - order soon, ships tomorrow''"
    by (simp only: as)
  from a3 a4 a5
  have ha: "extract_name ?a name_selectors = Inr ''Kettle 1.7 L''
            \<and> extract_url ?a url_selectors = Inr ''https://www.amazon.com/dp/B01''
            \<and> extract_price ?a = Inr ''$19.99''"
    by simp
  from av [THEN conjunct2, THEN conjunct1, THEN mp, OF ha] r1 cl
  have r2: "process_item ?a = Inr kettle_record"
    by (simp add: kettle_record_def truncate_name_def MAX_NAME_LENGTH_def)
  have n1: "select_one broken ''.a-size-medium.a-color-base.a-text-normal'' = Inr None"
    and n2: "select_one broken ''.a-link-normal .a-text-normal'' = Inl (Exn ''boom'')"
    by (simp_all add: sample_defs)
  have ns: "name_selectors = [''.a-size-medium.a-color-base.a-text-normal'']
              @ ''.a-link-normal .a-text-normal'' # ?npost"
    by (simp add: name_selectors_def)
  from n1 n2
  have hn: "(\<forall>s\<in>set [''.a-size-medium.a-color-base.a-text-normal''].
               select_one broken s = Inr None)
            \<and> select_one broken ''.a-link-normal .a-text-normal'' = Inl (Exn ''boom'')"
    by simp
  note nm = rule_exceptions
    [where item = broken and sel = "''.a-link-normal .a-text-normal''" and x = "Exn ''boom''"
       and pre = "[''.a-size-medium.a-color-base.a-text-normal'']" and post = ?npost
       and items = "[toaster]" and products = "[]",
     THEN conjunct2, THEN conjunct2, THEN conjunct1, THEN mp, OF hn]
  from nm [THEN conjunct1] have r3: "extract_name broken name_selectors = Inl (Exn ''boom'')"
    by (simp only: ns [symmetric])
  from nm [THEN conjunct2, THEN mp, OF ns]
  have r4: "process_item broken = Inl (Exn ''boom'')"
    and r5: "collect [broken, toaster] [] = collect [toaster] []"
    by (rule conjunct1, rule conjunct2)
  have u1: "select_one ?u ''h2 a.a-link-normal'' = Inl (Exn ''boom'')"
    by (simp add: sample_defs)
  have u2: "extract_name ?u name_selectors = Inr ''Kettle 1.7 L''"
    by (simp add: sample_defs field_defs string_defs)
  have us: "url_selectors = [] @ ''h2 a.a-link-normal'' # ?upost"
    by (simp add: url_selectors_def)
  from u1
  have hu: "(\<forall>s\<in>set []. url_rule_fails ?u s)
            \<and> select_one ?u ''h2 a.a-link-normal'' = Inl (Exn ''boom'')"
    by simp
  from us u2
  have hu': "url_selectors = [] @ ''h2 a.a-link-normal'' # ?upost
             \<and> extract_name ?u name_selectors = Inr ''Kettle 1.7 L''"
    by simp
  note um = rule_exceptions
    [where item = ?u and sel = "''h2 a.a-link-normal''" and x = "Exn ''boom''"
       and pre = "[]" and post = ?upost and n = "''Kettle 1.7 L''",
     THEN conjunct2, THEN conjunct2, THEN conjunct2, THEN mp, OF hu]
  from um [THEN conjunct1] have r6: "extract_url ?u url_selectors = Inl (Exn ''boom'')"
    by (simp only: us [symmetric])
  from um [THEN conjunct2, THEN mp, OF hu', THEN conjunct1]
  have r7: "process_item ?u = Inl (Exn ''boom'')" .
  from a1 r1 r2 n1 n2 r3 r4 r5 u1 u2 r6 r7 show ?thesis by simp
qed

text \<open>
  C2 as stated fails for the name: the library raises on the second name selector of
  \<open>broken\<close>, the third selector would match, and yet the exception leaves the name loop
  and the processing of the item.
\<close>

theorem name_rule_exception_escapes:
  "select_one broken ''.a-size-medium.a-color-base.a-text-normal'' = Inr None
   \<and> select_one broken ''.a-link-normal .a-text-normal'' = Inl (Exn ''boom'')
   \<and> select_one broken ''h2 a span'' = Inr (Some (node ''  Kettle 1.7 L  ''))
   \<and> extract_name broken name_selectors = Inl (Exn ''boom'')
   \<and> process_item broken = Inl (Exn ''boom'')"
  by (simp add: process_item_def sample_defs name_selectors_def)

end
